theory Spec2Isabelle
  imports Complex_Main
begin

section \<open>Data model\<close>

text \<open>
  A point is a two-element array of numbers (\<^verbatim>\<open>IPoint\<close>). A JavaScript number is
  modelled as the real number it stands for. The functions modelled from the spec
  compute exactly, but for the point addition on doubles further below, which rounds
  each sum as the program does.
\<close>

type_synonym point = "real \<times> real"

text \<open>
  A Bezier path carries either a single \<^verbatim>\<open>control\<close> point or an array
  \<^verbatim>\<open>controls\<close>; the code tests \<^verbatim>\<open>if (bez.control)\<close> to tell them apart.
\<close>

datatype bezier_controls = Control point | Controls "point list"

text \<open>
  The four path variants of \<^verbatim>\<open>pathType\<close> (\<^verbatim>\<open>IPathLine\<close>, \<^verbatim>\<open>IPathCircle\<close>,
  \<^verbatim>\<open>IPathArc\<close>, \<^verbatim>\<open>IPathBezier\<close>), each with the \<^verbatim>\<open>origin\<close> and the optional
  \<^verbatim>\<open>layer\<close> of \<^verbatim>\<open>IPath\<close>. The field \<^verbatim>\<open>end\<close> is called \<open>endPoint\<close> here.
  A path object mutated in place is modelled by returning the updated value.
\<close>

datatype path =
    Line (origin: point) (endPoint: point) (layer: "string option")
  | Circle (origin: point) (radius: real) (layer: "string option")
  | Arc (origin: point) (radius: real) (startAngle: real) (endAngle: real)
      (layer: "string option")
  | Bezier (origin: point) (endPoint: point) (controlPoints: bezier_controls)
      (layer: "string option")

text \<open>Assignments \<^verbatim>\<open>path.origin = p\<close> and \<^verbatim>\<open>path.layer = l\<close>.\<close>

fun set_origin :: "point \<Rightarrow> path \<Rightarrow> path" where
  "set_origin p (Line og e l) = Line p e l"
| "set_origin p (Circle og r l) = Circle p r l"
| "set_origin p (Arc og r s e l) = Arc p r s e l"
| "set_origin p (Bezier og e cs l) = Bezier p e cs l"

fun set_layer :: "string option \<Rightarrow> path \<Rightarrow> path" where
  "set_layer v (Line og e l) = Line og e v"
| "set_layer v (Circle og r l) = Circle og r v"
| "set_layer v (Arc og r s e l) = Arc og r s e v"
| "set_layer v (Bezier og e cs l) = Bezier og e cs v"

fun map_controls :: "(point \<Rightarrow> point) \<Rightarrow> bezier_controls \<Rightarrow> bezier_controls" where
  "map_controls f (Control c) = Control (f c)"
| "map_controls f (Controls cs) = Controls (map f cs)"

text \<open>
  Modelled from the spec: the constructors \<^verbatim>\<open>paths.Line\<close>, \<^verbatim>\<open>paths.Circle\<close> and
  \<^verbatim>\<open>paths.Arc\<close> are not among the source files. The spec writes
  \<^verbatim>\<open>new Line(breakPoint, savedEnd)\<close> and \<^verbatim>\<open>new Arc(origin, radius, start, end)\<close>:
  a new path object with the given fields and no layer.
\<close>

definition paths_Line :: "point \<Rightarrow> point \<Rightarrow> path" where
  "paths_Line og e = Line og e None"

definition paths_Circle :: "point \<Rightarrow> real \<Rightarrow> path" where
  "paths_Circle og r = Circle og r None"

definition paths_Arc :: "point \<Rightarrow> real \<Rightarrow> real \<Rightarrow> real \<Rightarrow> path" where
  "paths_Arc og r s e = Arc og r s e None"

section \<open>Functions of the point, angle, measure and bezier modules\<close>

text \<open>
  The modules \<^verbatim>\<open>point\<close>, \<^verbatim>\<open>angle\<close>, \<^verbatim>\<open>measure\<close> and \<^verbatim>\<open>bezier\<close> and the
  constructor \<^verbatim>\<open>paths.Bezier\<close> are called by the path code but are not among the
  source files. The path functions below take them as a parameter \<open>h\<close>, one field
  per function called, so that what is proved for every \<open>h\<close> does not depend on how
  they are written; the optional \<^verbatim>\<open>subtract\<close>
  argument of \<^verbatim>\<open>point.add\<close> is a boolean (absent is false), the optional tolerance
  of \<^verbatim>\<open>point.areEqual\<close> an option. \<^verbatim>\<open>bezier.breakAt\<close> returns the new path (or
  null) together with the source path as it has left it.
\<close>

record helpers =
  angle_ofPointInDegrees :: "point \<Rightarrow> point \<Rightarrow> real"
  angle_noRevolutions :: "real \<Rightarrow> real"
  angle_ofArcEnd :: "path \<Rightarrow> real"
  angle_mirror :: "real \<Rightarrow> bool \<Rightarrow> bool \<Rightarrow> real"
  angle_areEqual :: "real \<Rightarrow> real \<Rightarrow> bool"
  measure_isAngleEqual :: "real \<Rightarrow> real \<Rightarrow> bool"
  measure_isBetween :: "real \<Rightarrow> real \<Rightarrow> real \<Rightarrow> bool \<Rightarrow> bool"
  measure_isBetweenPoints :: "point \<Rightarrow> path \<Rightarrow> bool \<Rightarrow> bool"
  point_add :: "point \<Rightarrow> point \<Rightarrow> bool \<Rightarrow> point"
  point_mirror :: "point \<Rightarrow> bool \<Rightarrow> bool \<Rightarrow> point"
  point_rotate :: "point \<Rightarrow> real \<Rightarrow> point \<Rightarrow> point"
  point_areEqual :: "point \<Rightarrow> point \<Rightarrow> real option \<Rightarrow> bool"
  paths_Bezier :: "point list \<Rightarrow> path"
  bezier_breakAt :: "path \<Rightarrow> real option \<Rightarrow> path option \<times> path"

section \<open>Break engine (src/core/break.ts)\<close>

text \<open>
  \<^verbatim>\<open>angleOfBreak || angle.ofPointInDegrees(...)\<close>: the optional number on the left is
  falsy when it is absent and when it is \<open>0\<close>.
\<close>

definition number_or :: "real option \<Rightarrow> real \<Rightarrow> real" where
  "number_or a b = (case a of None \<Rightarrow> b | Some v \<Rightarrow> if v = 0 then b else v)"

text \<open>
  The loop of \<^verbatim>\<open>getAngleStrictlyBetweenArcAngles\<close> over \<^verbatim>\<open>tries = [0, 1, -1]\<close>;
  \<open>arcStart\<close> is \<^verbatim>\<open>arc.startAngle\<close>, \<open>s\<close> and \<open>e\<close> the local \<^verbatim>\<open>startAngle\<close> and
  \<^verbatim>\<open>endAngle\<close>.
\<close>

fun tryAngles :: "helpers \<Rightarrow> real \<Rightarrow> real \<Rightarrow> real \<Rightarrow> real \<Rightarrow> real list \<Rightarrow> real option" where
  "tryAngles h arcStart angleAtBreakPoint s e [] = None"
| "tryAngles h arcStart angleAtBreakPoint s e (t # ts) =
     (let add = 360 * t in
      if measure_isBetween h (angleAtBreakPoint + add) s e True
      then Some (arcStart + angleAtBreakPoint + add - s)
      else tryAngles h arcStart angleAtBreakPoint s e ts)"

definition getAngleStrictlyBetweenArcAngles :: "helpers \<Rightarrow> path \<Rightarrow> real \<Rightarrow> real option" where
  "getAngleStrictlyBetweenArcAngles h arc angleAtBreakPoint =
     (let s = angle_noRevolutions h (startAngle arc);
          e = s + angle_ofArcEnd h arc - startAngle arc
      in tryAngles h (startAngle arc) angleAtBreakPoint s e [0, 1, -1])"

text \<open>
  The handlers of \<^verbatim>\<open>breakPathFunctionMap\<close>. Each returns the value the JavaScript
  function returns (\<open>None\<close> is null) and the source path after the call.
\<close>

definition breakPathFunctionMap_Arc ::
  "helpers \<Rightarrow> path \<Rightarrow> point \<Rightarrow> real option \<Rightarrow> real option \<Rightarrow> path option \<times> path" where
  "breakPathFunctionMap_Arc h arc pointOfBreak angleOfBreak tOfBreak =
     (let angleAtBreakPoint =
            number_or angleOfBreak (angle_ofPointInDegrees h (origin arc) pointOfBreak)
      in if measure_isAngleEqual h angleAtBreakPoint (startAngle arc)
            \<or> measure_isAngleEqual h angleAtBreakPoint (endAngle arc)
         then (None, arc)
         else (case getAngleStrictlyBetweenArcAngles h arc angleAtBreakPoint of
                 None \<Rightarrow> (None, arc)
               | Some angleAtBreakPointBetween \<Rightarrow>
                   (let savedEndAngle = endAngle arc
                    in (Some (paths_Arc (origin arc) (radius arc)
                                angleAtBreakPointBetween savedEndAngle),
                        Arc (origin arc) (radius arc) (startAngle arc)
                          angleAtBreakPointBetween (layer arc)))))"

definition breakPathFunctionMap_Circle ::
  "helpers \<Rightarrow> path \<Rightarrow> point \<Rightarrow> real option \<Rightarrow> real option \<Rightarrow> path option \<times> path" where
  "breakPathFunctionMap_Circle h circle pointOfBreak angleOfBreak tOfBreak =
     (let angleAtBreakPoint = angle_ofPointInDegrees h (origin circle) pointOfBreak
      in (None, Arc (origin circle) (radius circle) angleAtBreakPoint
                  (angleAtBreakPoint + 360) (layer circle)))"

definition breakPathFunctionMap_Line ::
  "helpers \<Rightarrow> path \<Rightarrow> point \<Rightarrow> real option \<Rightarrow> real option \<Rightarrow> path option \<times> path" where
  "breakPathFunctionMap_Line h line pointOfBreak angleOfBreak tOfBreak =
     (if \<not> measure_isBetweenPoints h pointOfBreak line True then (None, line)
      else (let savedEndPoint = endPoint line
            in (Some (paths_Line pointOfBreak savedEndPoint),
                Line (origin line) pointOfBreak (layer line))))"

definition breakPathFunctionMap_Bezier ::
  "helpers \<Rightarrow> path \<Rightarrow> point \<Rightarrow> real option \<Rightarrow> real option \<Rightarrow> path option \<times> path" where
  "breakPathFunctionMap_Bezier h bez pointOfBreak angleOfBreak tOfBreak =
     bezier_breakAt h bez tOfBreak"

text \<open>The lookup \<^verbatim>\<open>breakPathFunctionMap[pathToBreak.type]\<close>.\<close>

fun breakPathFunctionMap ::
  "helpers \<Rightarrow> path \<Rightarrow> point \<Rightarrow> real option \<Rightarrow> real option \<Rightarrow> path option \<times> path" where
  "breakPathFunctionMap h (Arc og r s e l) = breakPathFunctionMap_Arc h (Arc og r s e l)"
| "breakPathFunctionMap h (Circle og r l) = breakPathFunctionMap_Circle h (Circle og r l)"
| "breakPathFunctionMap h (Line og e l) = breakPathFunctionMap_Line h (Line og e l)"
| "breakPathFunctionMap h (Bezier og e cs l) = breakPathFunctionMap_Bezier h (Bezier og e cs l)"

text \<open>
  \<^verbatim>\<open>breakAtPoint\<close> returns its result and the source path after the call. A null
  path or break point is \<open>None\<close>. The layer is copied when the source has one
  (\<^verbatim>\<open>'layer' in pathToBreak\<close>).
\<close>

definition breakAtPoint ::
  "helpers \<Rightarrow> path option \<Rightarrow> point option \<Rightarrow> real option \<Rightarrow> real option
     \<Rightarrow> path option \<times> path option" where
  "breakAtPoint h pathToBreak pointOfBreak angleOfBreak tOfBreak =
     (case pathToBreak of
        None \<Rightarrow> (None, None)
      | Some p \<Rightarrow>
          (case pointOfBreak of
             None \<Rightarrow> (None, Some p)
           | Some pt \<Rightarrow>
               (case breakPathFunctionMap h p pt angleOfBreak tOfBreak of
                  (None, p') \<Rightarrow> (None, Some p')
                | (Some result, p') \<Rightarrow>
                    (case layer p' of
                       None \<Rightarrow> (Some result, Some p')
                     | Some l \<Rightarrow> (Some (set_layer (Some l) result), Some p')))))"

section \<open>Transformations and equality (the path module)\<close>

text \<open>
  \<^verbatim>\<open>copyLayer(pathA, pathB)\<close> writes the layer of \<open>pathA\<close> into \<open>pathB\<close> when both
  paths are there and \<open>pathA\<close> has a layer; the result is \<open>pathB\<close> after the call.
\<close>

definition copyLayer :: "path option \<Rightarrow> path option \<Rightarrow> path option" where
  "copyLayer pathA pathB =
     (case pathA of
        None \<Rightarrow> pathB
      | Some a \<Rightarrow>
          (case pathB of
             None \<Rightarrow> None
           | Some b \<Rightarrow>
               (case layer a of None \<Rightarrow> Some b | Some l \<Rightarrow> Some (set_layer (Some l) b))))"

text \<open>The handlers of \<^verbatim>\<open>mirrorMap\<close>, one equation per path type.\<close>

fun mirrorMap :: "helpers \<Rightarrow> path \<Rightarrow> point \<Rightarrow> bool \<Rightarrow> bool \<Rightarrow> path" where
  "mirrorMap h (Line og e l) newOrigin mirrorX mirrorY =
     paths_Line newOrigin (point_mirror h e mirrorX mirrorY)"
| "mirrorMap h (Circle og r l) newOrigin mirrorX mirrorY = paths_Circle newOrigin r"
| "mirrorMap h (Arc og r s e l) newOrigin mirrorX mirrorY =
     (let startAngle' = angle_mirror h s mirrorX mirrorY;
          endAngle' = angle_mirror h (angle_ofArcEnd h (Arc og r s e l)) mirrorX mirrorY;
          xor = (mirrorX \<noteq> mirrorY)
      in paths_Arc newOrigin r
           (if xor then endAngle' else startAngle')
           (if xor then startAngle' else endAngle'))"
| "mirrorMap h (Bezier og e cs l) newOrigin mirrorX mirrorY =
     (let points = [og] @ (case cs of Control c \<Rightarrow> [c] | Controls ps \<Rightarrow> ps) @ [e];
          mirroredPoints = map (\<lambda>p. point_mirror h p mirrorX mirrorY) points
      in paths_Bezier h mirroredPoints)"

definition mirror :: "helpers \<Rightarrow> path option \<Rightarrow> bool \<Rightarrow> bool \<Rightarrow> path option" where
  "mirror h pathToMirror mirrorX mirrorY =
     (let newPath =
            (case pathToMirror of
               None \<Rightarrow> None
             | Some p \<Rightarrow>
                 (let newOrigin = point_mirror h (origin p) mirrorX mirrorY
                  in Some (mirrorMap h p newOrigin mirrorX mirrorY)))
      in copyLayer pathToMirror newPath)"








text \<open>
  The handlers of \<^verbatim>\<open>rotateMap\<close>: lines, arcs and Beziers; circles have no handler.
\<close>

fun rotateMap :: "helpers \<Rightarrow> path \<Rightarrow> real \<Rightarrow> point \<Rightarrow> path" where
  "rotateMap h (Line og e l) angleInDegrees rotationOrigin =
     Line og (point_rotate h e angleInDegrees rotationOrigin) l"
| "rotateMap h (Arc og r s e l) angleInDegrees rotationOrigin =
     Arc og r (angle_noRevolutions h (s + angleInDegrees))
       (angle_noRevolutions h (e + angleInDegrees)) l"
| "rotateMap h (Bezier og e cs l) angleInDegrees rotationOrigin =
     Bezier og (point_rotate h e angleInDegrees rotationOrigin)
       (map_controls (\<lambda>p. point_rotate h p angleInDegrees rotationOrigin) cs) l"
| "rotateMap h p angleInDegrees rotationOrigin = p"

definition rotate :: "helpers \<Rightarrow> path option \<Rightarrow> real \<Rightarrow> point \<Rightarrow> path option" where
  "rotate h pathToRotate angleInDegrees rotationOrigin =
     (case pathToRotate of
        None \<Rightarrow> None
      | Some p \<Rightarrow>
          if angleInDegrees = 0 then Some p
          else Some (rotateMap h
                       (set_origin (point_rotate h (origin p) angleInDegrees rotationOrigin) p)
                       angleInDegrees rotationOrigin))"

text \<open>
  The type tag of a path, and the handlers of \<^verbatim>\<open>pathAreEqualMap\<close>. The circle
  handler is also called on arcs. The Bezier handler returns null; \<^verbatim>\<open>areEqual\<close>
  returns what the handler returns, so its result is \<open>None\<close> for null.
\<close>

datatype pathType = Type_Line | Type_Circle | Type_Bezier | Type_Arc

fun path_type :: "path \<Rightarrow> pathType" where
  "path_type (Line og e l) = Type_Line"
| "path_type (Circle og r l) = Type_Circle"
| "path_type (Arc og r s e l) = Type_Arc"
| "path_type (Bezier og e cs l) = Type_Bezier"

definition pathAreEqualMap_Line :: "helpers \<Rightarrow> path \<Rightarrow> path \<Rightarrow> real option \<Rightarrow> bool" where
  "pathAreEqualMap_Line h line1 line2 withinPointDistance =
     ((point_areEqual h (origin line1) (origin line2) withinPointDistance
         \<and> point_areEqual h (endPoint line1) (endPoint line2) withinPointDistance)
      \<or> (point_areEqual h (origin line1) (endPoint line2) withinPointDistance
         \<and> point_areEqual h (endPoint line1) (origin line2) withinPointDistance))"

definition pathAreEqualMap_Circle :: "helpers \<Rightarrow> path \<Rightarrow> path \<Rightarrow> real option \<Rightarrow> bool" where
  "pathAreEqualMap_Circle h circle1 circle2 withinPointDistance =
     (point_areEqual h (origin circle1) (origin circle2) withinPointDistance
      \<and> radius circle1 = radius circle2)"

definition pathAreEqualMap_Arc :: "helpers \<Rightarrow> path \<Rightarrow> path \<Rightarrow> real option \<Rightarrow> bool" where
  "pathAreEqualMap_Arc h arc1 arc2 withinPointDistance =
     (pathAreEqualMap_Circle h arc1 arc2 withinPointDistance
      \<and> angle_areEqual h (startAngle arc1) (startAngle arc2)
      \<and> angle_areEqual h (endAngle arc1) (endAngle arc2))"

definition pathAreEqualMap_Bezier ::
  "helpers \<Rightarrow> path \<Rightarrow> path \<Rightarrow> real option \<Rightarrow> bool option" where
  "pathAreEqualMap_Bezier h bezier1 bezier2 withinPointDistance = None"

definition areEqual :: "helpers \<Rightarrow> path \<Rightarrow> path \<Rightarrow> real option \<Rightarrow> bool option" where
  "areEqual h path1 path2 withinPointDistance =
     (if path_type path1 = path_type path2
      then (case path_type path1 of
              Type_Line \<Rightarrow> Some (pathAreEqualMap_Line h path1 path2 withinPointDistance)
            | Type_Circle \<Rightarrow> Some (pathAreEqualMap_Circle h path1 path2 withinPointDistance)
            | Type_Arc \<Rightarrow> Some (pathAreEqualMap_Arc h path1 path2 withinPointDistance)
            | Type_Bezier \<Rightarrow> pathAreEqualMap_Bezier h path1 path2 withinPointDistance)
      else Some False)"

section \<open>The missing functions, modelled from the spec\<close>

text \<open>
  Modelled from the spec: \<^verbatim>\<open>angle.ofPointInDegrees\<close> is missing; the spec calls it
  the "polar angle of the break point relative to origin". The angle is measured
  counter-clockwise in degrees and taken in \<open>[0, 360)\<close>.
\<close>

definition ofPointInDegrees_spec :: "point \<Rightarrow> point \<Rightarrow> real" where
  "ofPointInDegrees_spec og p =
     (let x = fst p - fst og; y = snd p - snd og in
      if 0 < x \<and> 0 \<le> y then arctan (y / x) * 180 / pi
      else if 0 < x then 360 + arctan (y / x) * 180 / pi
      else if x < 0 then 180 + arctan (y / x) * 180 / pi
      else if 0 < y then 90
      else if y < 0 then 270
      else 0)"

text \<open>
  Modelled from the spec: \<^verbatim>\<open>angle.noRevolutions\<close> is missing; the spec says
  "\<^verbatim>\<open>normalize(degrees)\<close> maps to [0,360)".
\<close>

definition noRevolutions_spec :: "real \<Rightarrow> real" where
  "noRevolutions_spec a = a - 360 * of_int \<lfloor>a / 360\<rfloor>"

text \<open>
  Modelled from the spec: \<^verbatim>\<open>angle.ofArcEnd\<close> is missing; the spec says the
  "actual sweep = \<^verbatim>\<open>endAngle + 360*k - startAngle\<close> for the smallest k making the
  result positive", with \<open>k\<close> a natural number. The function returns
  \<^verbatim>\<open>endAngle + 360*k\<close> for that \<open>k\<close>.
\<close>

definition ofArcEnd_spec :: "path \<Rightarrow> real" where
  "ofArcEnd_spec arc =
     (if startAngle arc < endAngle arc then endAngle arc
      else endAngle arc + 360 * of_int (\<lfloor>(startAngle arc - endAngle arc) / 360\<rfloor> + 1))"

text \<open>
  Modelled from the spec: \<^verbatim>\<open>angle.mirror\<close> is missing; the spec says it "reflects an
  angle consistent with point mirroring": negating the y coordinate of a direction
  turns the angle \<open>a\<close> into \<open>360 - a\<close>, negating the x coordinate into \<open>180 - a\<close>.
\<close>

definition angle_mirror_spec :: "real \<Rightarrow> bool \<Rightarrow> bool \<Rightarrow> real" where
  "angle_mirror_spec a mirrorX mirrorY =
     (let a1 = (if mirrorY then 360 - a else a)
      in if mirrorX then 180 - a1 else a1)"

text \<open>
  Modelled from the spec: \<^verbatim>\<open>angle.areEqual\<close> and \<^verbatim>\<open>measure.isAngleEqual\<close> are
  missing; the spec speaks of angles "equal under angle tolerance (fixed tolerance, not
  the caller-supplied point tolerance)" and gives the tolerance no value. Two angles are
  compared after normalization to \<open>[0, 360)\<close>, with the value of the default point
  tolerance.
\<close>

definition angleTolerance :: real where
  "angleTolerance = 1 / 10000000"

definition angle_areEqual_spec :: "real \<Rightarrow> real \<Rightarrow> bool" where
  "angle_areEqual_spec a1 a2 =
     (\<bar>noRevolutions_spec a1 - noRevolutions_spec a2\<bar> \<le> angleTolerance)"

text \<open>
  Modelled from the spec: \<^verbatim>\<open>measure.isBetween\<close> is missing; the spec says that, as
  the arc handler calls it, the value "lies strictly between" the two limits. The last
  argument chooses the strict comparison.
\<close>

definition isBetween_spec :: "real \<Rightarrow> real \<Rightarrow> real \<Rightarrow> bool \<Rightarrow> bool" where
  "isBetween_spec v limit1 limit2 exclusive =
     (if exclusive then limit1 < v \<and> v < limit2 else limit1 \<le> v \<and> v \<le> limit2)"

text \<open>
  Modelled from the spec: \<^verbatim>\<open>measure.isBetweenPoints\<close> is missing; the spec says
  that "the break point lies on the segment (inclusive of endpoints, within tolerance)".
  The point is within the tolerance of the straight line through the two end points, and
  its foot on that line lies between them. The last argument is read as the last
  argument of \<^verbatim>\<open>measure.isBetween\<close>: with \<^verbatim>\<open>true\<close>, which is what the line handler
  passes, the comparison is strict and both end points are excluded.
\<close>

definition pointTolerance :: real where
  "pointTolerance = 1 / 10000000"

definition isBetweenPoints_spec :: "point \<Rightarrow> path \<Rightarrow> bool \<Rightarrow> bool" where
  "isBetweenPoints_spec p line exclusive =
     (let dx = fst (endPoint line) - fst (origin line);
          dy = snd (endPoint line) - snd (origin line);
          wx = fst p - fst (origin line);
          wy = snd p - snd (origin line);
          along = dx * wx + dy * wy;
          len2 = dx * dx + dy * dy
      in (dx * wy - dy * wx) * (dx * wy - dy * wx) \<le> pointTolerance * pointTolerance * len2
         \<and> (if exclusive then 0 < along \<and> along < len2 else 0 \<le> along \<and> along \<le> len2))"

text \<open>
  Modelled from the spec: the \<^verbatim>\<open>point\<close> module is missing. The spec lists \<^verbatim>\<open>add\<close>
  and \<^verbatim>\<open>subtract\<close> ("origin += (or -=) delta"), \<^verbatim>\<open>mirror\<close> ("negate the x and/or
  y coordinate"), \<^verbatim>\<open>rotate\<close> ("standard 2D rotation about an arbitrary center") and
  \<^verbatim>\<open>areEqual(p1, p2, tolerance?)\<close> ("default tolerance ~1e-7, Euclidean or per-axis
  difference within tolerance"); the per-axis difference is taken here.
\<close>

definition point_add_spec :: "point \<Rightarrow> point \<Rightarrow> bool \<Rightarrow> point" where
  "point_add_spec a b subtract =
     (if subtract then (fst a - fst b, snd a - snd b) else (fst a + fst b, snd a + snd b))"

definition point_mirror_spec :: "point \<Rightarrow> bool \<Rightarrow> bool \<Rightarrow> point" where
  "point_mirror_spec p mirrorX mirrorY =
     (if mirrorX then - fst p else fst p, if mirrorY then - snd p else snd p)"

definition point_rotate_spec :: "point \<Rightarrow> real \<Rightarrow> point \<Rightarrow> point" where
  "point_rotate_spec p angleInDegrees rotationOrigin =
     (let t = angleInDegrees * pi / 180;
          dx = fst p - fst rotationOrigin; dy = snd p - snd rotationOrigin
      in (fst rotationOrigin + dx * cos t - dy * sin t,
          snd rotationOrigin + dx * sin t + dy * cos t))"

definition point_areEqual_spec :: "point \<Rightarrow> point \<Rightarrow> real option \<Rightarrow> bool" where
  "point_areEqual_spec p1 p2 withinDistance =
     (let tol = (case withinDistance of None \<Rightarrow> pointTolerance | Some d \<Rightarrow> d)
      in \<bar>fst p1 - fst p2\<bar> \<le> tol \<and> \<bar>snd p1 - snd p2\<bar> \<le> tol)"

text \<open>
  Modelled from the spec: the constructor \<^verbatim>\<open>paths.Bezier\<close> is missing; the mirror
  handler gives it the array of origin, control points and end, and the spec says the
  path is "reconstruct[ed] with the same control-point arity as the source". One point
  between origin and end is a single \<^verbatim>\<open>control\<close>, any other number the array
  \<^verbatim>\<open>controls\<close>. The array always holds the origin and the end.
\<close>

fun paths_Bezier_spec :: "point list \<Rightarrow> path" where
  "paths_Bezier_spec [og, c, e] = Bezier og e (Control c) None"
| "paths_Bezier_spec (og # p # ps) =
     Bezier og (last (p # ps)) (Controls (butlast (p # ps))) None"

text \<open>
  Modelled from the spec: \<^verbatim>\<open>bezier.breakAt\<close> is missing; the spec names it as the
  collaborator "\<^verbatim>\<open>splitBezier(bezier, t)\<close> \<rightarrow> Bezier producing the tail portion",
  keeping the arity of the control points, and leaves its internals out of scope. The
  curve is subdivided at \<open>t\<close> by repeated interpolation of its control polygon; the
  source keeps the part before \<open>t\<close>. Without a parameter nothing is split.
\<close>

definition interpolate :: "real \<Rightarrow> point \<Rightarrow> point \<Rightarrow> point" where
  "interpolate t p q = ((1 - t) * fst p + t * fst q, (1 - t) * snd p + t * snd q)"

fun interpolateAll :: "real \<Rightarrow> point list \<Rightarrow> point list" where
  "interpolateAll t (p # q # ps) = interpolate t p q # interpolateAll t (q # ps)"
| "interpolateAll t ps = []"

fun subdivideN :: "nat \<Rightarrow> real \<Rightarrow> point list \<Rightarrow> point list \<times> point list" where
  "subdivideN 0 t ps = (ps, ps)"
| "subdivideN (Suc n) t ps =
     (case subdivideN n t (interpolateAll t ps) of
        (front, back) \<Rightarrow> (hd ps # front, back @ [last ps]))"

definition subdivide :: "real \<Rightarrow> point list \<Rightarrow> point list \<times> point list" where
  "subdivide t ps = subdivideN (length ps - 1) t ps"

fun polygon :: "path \<Rightarrow> point list" where
  "polygon (Bezier og e (Control c) l) = [og, c, e]"
| "polygon (Bezier og e (Controls cs) l) = og # cs @ [e]"

fun fromPolygon :: "bezier_controls \<Rightarrow> string option \<Rightarrow> point list \<Rightarrow> path" where
  "fromPolygon (Control c) l [og, c', e] = Bezier og e (Control c') l"
| "fromPolygon cs l (og # p # ps) = Bezier og (last (p # ps)) (Controls (butlast (p # ps))) l"

definition bezier_breakAt_spec :: "path \<Rightarrow> real option \<Rightarrow> path option \<times> path" where
  "bezier_breakAt_spec bez tOfBreak =
     (case tOfBreak of
        None \<Rightarrow> (None, bez)
      | Some t \<Rightarrow>
          (case subdivide t (polygon bez) of
             (front, back) \<Rightarrow>
               (Some (fromPolygon (controlPoints bez) None back),
                fromPolygon (controlPoints bez) (layer bez) front)))"

definition spec_helpers :: helpers where
  "spec_helpers =
     \<lparr> angle_ofPointInDegrees = ofPointInDegrees_spec,
       angle_noRevolutions = noRevolutions_spec,
       angle_ofArcEnd = ofArcEnd_spec,
       angle_mirror = angle_mirror_spec,
       angle_areEqual = angle_areEqual_spec,
       measure_isAngleEqual = angle_areEqual_spec,
       measure_isBetween = isBetween_spec,
       measure_isBetweenPoints = isBetweenPoints_spec,
       point_add = point_add_spec,
       point_mirror = point_mirror_spec,
       point_rotate = point_rotate_spec,
       point_areEqual = point_areEqual_spec,
       paths_Bezier = paths_Bezier_spec,
       bezier_breakAt = bezier_breakAt_spec \<rparr>"


section \<open>Point addition on IEEE doubles\<close>






section \<open>Concrete inputs and auxiliary notions\<close>






text \<open>The number of revolutions that \<open>ofArcEnd_spec\<close> adds to the end angle.\<close>

definition turns :: "real \<Rightarrow> real \<Rightarrow> int" where
  "turns s e = (if s < e then 0 else \<lfloor>(s - e) / 360\<rfloor> + 1)"





section \<open>Lemmas on the modelled angle and point functions\<close>

lemma noRevolutions_spec_shift:
  "noRevolutions_spec (a + 360 * of_int k) = noRevolutions_spec a"
proof -
  have eq: "(a + 360 * of_int k) / 360 = a / 360 + of_int k" by (simp add: field_simps)
  have "\<lfloor>(a + 360 * of_int k) / 360\<rfloor> = \<lfloor>a / 360 + of_int k\<rfloor>"
    by (simp only: eq)
  also have "\<dots> = \<lfloor>a / 360\<rfloor> + k"
    by (rule floor_add_int[symmetric])
  finally have fl: "\<lfloor>(a + 360 * of_int k) / 360\<rfloor> = \<lfloor>a / 360\<rfloor> + k" .
  show ?thesis unfolding noRevolutions_spec_def fl by (simp add: algebra_simps)
qed

lemma noRevolutions_spec_range: "0 \<le> noRevolutions_spec a \<and> noRevolutions_spec a < 360"
proof -
  have "of_int \<lfloor>a / 360\<rfloor> \<le> a / 360" and "a / 360 < of_int \<lfloor>a / 360\<rfloor> + 1"
    using floor_correct[of "a / 360"] by simp_all
  then show ?thesis by (simp add: noRevolutions_spec_def field_simps)
qed

lemma ofArcEnd_spec_turns: "ofArcEnd_spec (Arc og r s e l) = e + 360 * of_int (turns s e)"
  by (simp add: ofArcEnd_spec_def turns_def)

text \<open>The modelled end of an arc lies after its start, by less than one revolution more
  than the end angle needs.\<close>

lemma ofArcEnd_spec_sweep:
  "s < ofArcEnd_spec (Arc og r s e l) \<and> 0 \<le> turns s e
   \<and> (turns s e = 0 \<or> ofArcEnd_spec (Arc og r s e l) - 360 \<le> s)"
proof (cases "s < e")
  case True
  then show ?thesis by (simp add: ofArcEnd_spec_turns) (simp add: turns_def)
next
  case False
  define f :: real where "f = of_int \<lfloor>(s - e) / 360\<rfloor>"
  have "f \<le> (s - e) / 360" and "(s - e) / 360 < f + 1"
    unfolding f_def using floor_correct[of "(s - e) / 360"] by simp_all
  then have f: "360 * f \<le> s - e" "s - e < 360 * f + 360"
    by (simp_all add: field_simps)
  from False have nn: "0 \<le> \<lfloor>(s - e) / 360\<rfloor>" by simp
  have t: "turns s e = \<lfloor>(s - e) / 360\<rfloor> + 1" using False by (simp add: turns_def)
  have o: "ofArcEnd_spec (Arc og r s e l) = e + 360 * f + 360"
    by (simp add: ofArcEnd_spec_turns t f_def)
  show ?thesis unfolding o using f nn t by auto
qed

lemma angle_areEqual_spec_turns: "b = a + 360 * of_int k \<Longrightarrow> angle_areEqual_spec a b"
  by (simp add: angle_areEqual_spec_def noRevolutions_spec_shift angleTolerance_def)

lemma point_areEqual_spec_refl: "point_areEqual_spec p p None"
  by (simp add: point_areEqual_spec_def pointTolerance_def)

lemma point_mirror_spec_twice: "point_mirror_spec (point_mirror_spec p mx my) mx my = p"
  by (simp add: point_mirror_spec_def)


section \<open>Mirroring twice\<close>

lemma mirror_Line_twice:
  "mirror spec_helpers (mirror spec_helpers (Some (Line og e l)) mx my) mx my =
     Some (Line og e l)"
  by (cases l) (simp_all add: mirror_def copyLayer_def spec_helpers_def paths_Line_def
      point_mirror_spec_twice)

lemma mirror_Circle_twice:
  "mirror spec_helpers (mirror spec_helpers (Some (Circle og r l)) mx my) mx my =
     Some (Circle og r l)"
  by (cases l) (simp_all add: mirror_def copyLayer_def spec_helpers_def paths_Circle_def
      point_mirror_spec_twice)

lemma mirror_Arc:
  "mirror spec_helpers (Some (Arc og r s e l)) mx my =
     Some (Arc (point_mirror_spec og mx my) r
       (if mx \<noteq> my then angle_mirror_spec (e + 360 * of_int (turns s e)) mx my
        else angle_mirror_spec s mx my)
       (if mx \<noteq> my then angle_mirror_spec s mx my
        else angle_mirror_spec (e + 360 * of_int (turns s e)) mx my) l)"
  by (cases l) (simp_all add: mirror_def copyLayer_def spec_helpers_def paths_Arc_def
      ofArcEnd_spec_turns Let_def)

text \<open>
  Mirroring an arc twice gives back its origin, radius and layer, and both angles up to
  whole revolutions.
\<close>

lemma mirror_Arc_twice:
  "\<exists>i j. mirror spec_helpers (mirror spec_helpers (Some (Arc og r s e l)) mx my) mx my =
     Some (Arc og r (s + 360 * of_int i) (e + 360 * of_int j) l)"
proof -
  define k where "k = turns s e"
  define E where "E = e + 360 * of_int k"
  show ?thesis
  proof (cases mx; cases my)
    assume "mx" "my"
    define k' where "k' = turns (s - 180) (E - 180)"
    have "mirror spec_helpers (mirror spec_helpers (Some (Arc og r s e l)) mx my) mx my =
      Some (Arc og r (s + 360 * of_int (- 1)) (e + 360 * of_int (k + k' - 1)) l)"
      using \<open>mx\<close> \<open>my\<close>
      by (simp add: mirror_Arc point_mirror_spec_twice angle_mirror_spec_def k_def E_def k'_def
          algebra_simps)
    then show ?thesis by blast
  next
    assume "mx" "\<not> my"
    define k' where "k' = turns (180 - E) (180 - s)"
    have "mirror spec_helpers (mirror spec_helpers (Some (Arc og r s e l)) mx my) mx my =
      Some (Arc og r (s + 360 * of_int (- k')) (e + 360 * of_int k) l)"
      using \<open>mx\<close> \<open>\<not> my\<close>
      by (simp add: mirror_Arc point_mirror_spec_twice angle_mirror_spec_def k_def E_def k'_def
          algebra_simps)
    then show ?thesis by blast
  next
    assume "\<not> mx" "my"
    define k' where "k' = turns (360 - E) (360 - s)"
    have "mirror spec_helpers (mirror spec_helpers (Some (Arc og r s e l)) mx my) mx my =
      Some (Arc og r (s + 360 * of_int (- k')) (e + 360 * of_int k) l)"
      using \<open>\<not> mx\<close> \<open>my\<close>
      by (simp add: mirror_Arc point_mirror_spec_twice angle_mirror_spec_def k_def E_def k'_def
          algebra_simps)
    then show ?thesis by blast
  next
    assume "\<not> mx" "\<not> my"
    define k' where "k' = turns s E"
    have "mirror spec_helpers (mirror spec_helpers (Some (Arc og r s e l)) mx my) mx my =
      Some (Arc og r (s + 360 * of_int 0) (e + 360 * of_int (k + k')) l)"
      using \<open>\<not> mx\<close> \<open>\<not> my\<close>
      by (simp add: mirror_Arc point_mirror_spec_twice angle_mirror_spec_def k_def E_def k'_def
          algebra_simps)
    then show ?thesis by blast
  qed
qed

lemma areEqual_Arc_turns:
  "areEqual spec_helpers (Arc og r s e l) (Arc og r (s + 360 * of_int i) (e + 360 * of_int j) l')
     None = Some True"
  by (simp add: areEqual_def pathAreEqualMap_Arc_def pathAreEqualMap_Circle_def spec_helpers_def
      point_areEqual_spec_refl angle_areEqual_spec_turns)

lemma areEqual_Line_refl: "areEqual spec_helpers (Line og e l) (Line og e l') None = Some True"
  by (simp add: areEqual_def pathAreEqualMap_Line_def spec_helpers_def point_areEqual_spec_refl)

lemma areEqual_Circle_refl:
  "areEqual spec_helpers (Circle og r l) (Circle og r l') None = Some True"
  by (simp add: areEqual_def pathAreEqualMap_Circle_def spec_helpers_def
      point_areEqual_spec_refl)

lemma paths_Bezier_spec_type:
  "path_type (paths_Bezier_spec (a # xs @ [b])) = Type_Bezier"
  by (cases "a # xs @ [b]" rule: paths_Bezier_spec.cases) auto

lemma path_type_set_layer: "path_type (set_layer v p) = path_type p"
  by (cases p) simp_all

lemma mirror_Bezier_type:
  assumes "path_type p = Type_Bezier"
  shows "\<exists>q. mirror spec_helpers (Some p) mx my = Some q \<and> path_type q = Type_Bezier"
proof -
  from assms obtain og e cs l where p: "p = Bezier og e cs l" by (cases p) simp_all
  show ?thesis unfolding p
    by (cases l) (simp_all add: mirror_def copyLayer_def spec_helpers_def Let_def
        paths_Bezier_spec_type path_type_set_layer del: paths_Bezier_spec.simps)
qed

lemma areEqual_Bezier_null:
  "path_type p = Type_Bezier \<Longrightarrow> path_type q = Type_Bezier \<Longrightarrow> areEqual h p q tol = None"
  by (simp add: areEqual_def pathAreEqualMap_Bezier_def)

section \<open>Moving and moving back\<close>






section \<open>Rounding to doubles\<close>




























section \<open>The claims\<close>

text \<open>
  C1, as stated, fails on its example: breaking the arc from 350 to 10 at angle 5 sets
  the end angle of the source to 365, not to 5, and the returned arc starts at 365.
\<close>

theorem C1_arc_break_example_counterexample:
  "breakAtPoint spec_helpers (Some (Arc (0, 0) 5 350 10 None))
       (Some (5 * cos (pi / 36), 5 * sin (pi / 36))) (Some 5) None
     = (Some (Arc (0, 0) 5 365 10 None), Some (Arc (0, 0) 5 350 365 None))
   \<and> breakAtPoint spec_helpers (Some (Arc (0, 0) 5 350 10 None))
       (Some (5 * cos (pi / 36), 5 * sin (pi / 36))) (Some 5) None
     \<noteq> (Some (Arc (0, 0) 5 5 10 None), Some (Arc (0, 0) 5 350 5 None))"
  by (simp add: breakAtPoint_def breakPathFunctionMap_Arc_def number_or_def
      getAngleStrictlyBetweenArcAngles_def spec_helpers_def angle_areEqual_spec_def
      noRevolutions_spec_def ofArcEnd_spec_def isBetween_spec_def angleTolerance_def
      paths_Arc_def)

text \<open>
  C1 (amended): for every arc whose break angle \<open>a\<close> coincides with neither its start
  angle nor its end angle, with \<open>s\<close> the normalized start angle and
  \<open>e = s + ofArcEnd(arc) - startAngle\<close>, \<open>breakAtPoint\<close> tries \<open>a\<close>, \<open>a + 360\<close> and
  \<open>a - 360\<close> in that order; for the first of them that lies strictly between \<open>s\<close> and
  \<open>e\<close>, the resolved angle is \<open>startAngle + (a + offset) - s\<close>, the source arc gets it
  as its end angle, and the returned arc has the same origin, radius and layer, starts
  at the resolved angle and ends at the saved end angle; if none lies between, the
  result is null and the arc is unchanged. Breaking the arc from 350 to 10 at angle 5
  sets the end angle of the source to 365 and returns the arc from 365 to 10.
\<close>

theorem C1_arc_break_resolved_angle:
  assumes "\<not> measure_isAngleEqual h (number_or ang (angle_ofPointInDegrees h og pt)) st"
      and "\<not> measure_isAngleEqual h (number_or ang (angle_ofPointInDegrees h og pt)) en"
  shows "(let a = number_or ang (angle_ofPointInDegrees h og pt);
              s = angle_noRevolutions h st;
              e = s + angle_ofArcEnd h (Arc og r st en l) - st
          in breakAtPoint h (Some (Arc og r st en l)) (Some pt) ang t =
               (if measure_isBetween h a s e True
                then (Some (Arc og r (st + a - s) en l), Some (Arc og r st (st + a - s) l))
                else if measure_isBetween h (a + 360) s e True
                then (Some (Arc og r (st + a + 360 - s) en l),
                      Some (Arc og r st (st + a + 360 - s) l))
                else if measure_isBetween h (a - 360) s e True
                then (Some (Arc og r (st + a - 360 - s) en l),
                      Some (Arc og r st (st + a - 360 - s) l))
                else (None, Some (Arc og r st en l))))
         \<and> breakAtPoint spec_helpers (Some (Arc (0, 0) 5 350 10 None))
              (Some (5 * cos (pi / 36), 5 * sin (pi / 36))) (Some 5) None
            = (Some (Arc (0, 0) 5 365 10 None), Some (Arc (0, 0) 5 350 365 None))"
proof
  show "let a = number_or ang (angle_ofPointInDegrees h og pt);
              s = angle_noRevolutions h st;
              e = s + angle_ofArcEnd h (Arc og r st en l) - st
          in breakAtPoint h (Some (Arc og r st en l)) (Some pt) ang t =
               (if measure_isBetween h a s e True
                then (Some (Arc og r (st + a - s) en l), Some (Arc og r st (st + a - s) l))
                else if measure_isBetween h (a + 360) s e True
                then (Some (Arc og r (st + a + 360 - s) en l),
                      Some (Arc og r st (st + a + 360 - s) l))
                else if measure_isBetween h (a - 360) s e True
                then (Some (Arc og r (st + a - 360 - s) en l),
                      Some (Arc og r st (st + a - 360 - s) l))
                else (None, Some (Arc og r st en l)))"
    using assms
    by (cases l) (simp_all add: breakAtPoint_def breakPathFunctionMap_Arc_def
        getAngleStrictlyBetweenArcAngles_def paths_Arc_def Let_def)
  show "breakAtPoint spec_helpers (Some (Arc (0, 0) 5 350 10 None))
              (Some (5 * cos (pi / 36), 5 * sin (pi / 36))) (Some 5) None
            = (Some (Arc (0, 0) 5 365 10 None), Some (Arc (0, 0) 5 350 365 None))"
    by (simp add: breakAtPoint_def breakPathFunctionMap_Arc_def number_or_def
      getAngleStrictlyBetweenArcAngles_def spec_helpers_def angle_areEqual_spec_def
      noRevolutions_spec_def ofArcEnd_spec_def isBetween_spec_def angleTolerance_def
      paths_Arc_def)
qed

text \<open>
  Witness of C1 (amended): the arc from 90 to 200 with layer \<open>cut\<close>, broken at the
  angle 100, which lies between without an offset.
\<close>

theorem C1_arc_break_resolved_angle_witness:
  "\<not> measure_isAngleEqual spec_helpers
       (number_or (Some 100) (angle_ofPointInDegrees spec_helpers (1, 2) (0, 5))) 90
   \<and> \<not> measure_isAngleEqual spec_helpers
       (number_or (Some 100) (angle_ofPointInDegrees spec_helpers (1, 2) (0, 5))) 200
   \<and> breakAtPoint spec_helpers (Some (Arc (1, 2) 3 90 200 (Some ''cut''))) (Some (0, 5))
       (Some 100) None
     = (Some (Arc (1, 2) 3 100 200 (Some ''cut'')), Some (Arc (1, 2) 3 90 100 (Some ''cut'')))"
  using C1_arc_break_resolved_angle [of spec_helpers "Some 100" "(1, 2)" "(0, 5)" 90 200 3
      "Some ''cut''" None]
  by (simp add: number_or_def spec_helpers_def angle_areEqual_spec_def noRevolutions_spec_def
      ofArcEnd_spec_def isBetween_spec_def angleTolerance_def Let_def)

text \<open>
  C2: for every circle and every break point, \<open>breakAtPoint\<close> turns the source path
  into an arc with the same origin, radius and layer, whose start angle is the polar
  angle of the break point relative to the origin and whose end angle is that angle
  plus 360, and returns null. The circle of radius 3 about \<open>(0, 0)\<close>, broken at
  \<open>(3, 0)\<close>, becomes the arc from 0 to 360.
\<close>

theorem C2_circle_break_becomes_arc:
  "breakAtPoint h (Some (Circle og r l)) (Some pt) ang t =
     (None, Some (Arc og r (angle_ofPointInDegrees h og pt)
                    (angle_ofPointInDegrees h og pt + 360) l))
   \<and> breakAtPoint spec_helpers (Some (Circle (0, 0) 3 None)) (Some (3, 0)) None None =
     (None, Some (Arc (0, 0) 3 0 360 None))"
  by (simp add: breakAtPoint_def breakPathFunctionMap_Circle_def Let_def spec_helpers_def
      ofPointInDegrees_spec_def)




text \<open>
  C4: for every arc, if the break angle equals the start angle or the end angle of the
  arc (as \<^verbatim>\<open>measure.isAngleEqual\<close> decides), \<open>breakAtPoint\<close> returns null and the
  arc is unchanged.
\<close>

theorem C4_arc_break_at_endpoint_is_null:
  assumes "measure_isAngleEqual h (number_or ang (angle_ofPointInDegrees h og pt)) st
           \<or> measure_isAngleEqual h (number_or ang (angle_ofPointInDegrees h og pt)) en"
  shows "breakAtPoint h (Some (Arc og r st en l)) (Some pt) ang t =
           (None, Some (Arc og r st en l))"
  using assms by (auto simp add: breakAtPoint_def breakPathFunctionMap_Arc_def Let_def)

text \<open>Witness of C4: the arc from 0 to 90, broken at its end angle 90.\<close>

theorem C4_arc_break_at_endpoint_is_null_witness:
  "(measure_isAngleEqual spec_helpers
       (number_or (Some 90) (angle_ofPointInDegrees spec_helpers (0, 0) (0, 5))) 0
    \<or> measure_isAngleEqual spec_helpers
       (number_or (Some 90) (angle_ofPointInDegrees spec_helpers (0, 0) (0, 5))) 90)
   \<and> breakAtPoint spec_helpers (Some (Arc (0, 0) 5 0 90 None)) (Some (0, 5)) (Some 90) None =
       (None, Some (Arc (0, 0) 5 0 90 None))"
  using C4_arc_break_at_endpoint_is_null [of spec_helpers "Some 90" "(0, 0)" "(0, 5)" 0 90 5
      None None]
  by (simp add: number_or_def spec_helpers_def angle_areEqual_spec_def angleTolerance_def)

text \<open>
  C5 at a quadratic Bezier: mirroring it twice gives the same Bezier back, and
  \<open>areEqual\<close> on the two returns the null of the unfinished Bezier handler, not true.
\<close>

theorem C5_double_mirror_Bezier_null:
  "mirror spec_helpers
      (mirror spec_helpers (Some (Bezier (0, 0) (2, 0) (Control (1, 1)) None)) True False)
      True False
     = Some (Bezier (0, 0) (2, 0) (Control (1, 1)) None)
   \<and> areEqual spec_helpers (Bezier (0, 0) (2, 0) (Control (1, 1)) None)
        (Bezier (0, 0) (2, 0) (Control (1, 1)) None) None = None
   \<and> areEqual spec_helpers (Bezier (0, 0) (2, 0) (Control (1, 1)) None)
        (Bezier (0, 0) (2, 0) (Control (1, 1)) None) None \<noteq> Some True"
  by (simp add: mirror_def copyLayer_def spec_helpers_def Let_def point_mirror_spec_def
      areEqual_def pathAreEqualMap_Bezier_def)

text \<open>
  The property of C5 on the other variants: for every line, circle and arc \<open>p\<close>,
  mirroring \<open>p\<close> twice with the same flags gives a path that \<open>areEqual\<close>, called
  without a tolerance, reports equal to \<open>p\<close>; for every Bezier path the comparison
  returns null.
\<close>

theorem double_mirror_areEqual:
  "\<exists>q. mirror spec_helpers (mirror spec_helpers (Some p) mirrorX mirrorY) mirrorX mirrorY
          = Some q
       \<and> areEqual spec_helpers p q None =
           (if path_type p = Type_Bezier then None else Some True)"
proof (cases p)
  case (Line og e l)
  then show ?thesis by (simp add: mirror_Line_twice areEqual_Line_refl)
next
  case (Circle og r l)
  then show ?thesis by (simp add: mirror_Circle_twice areEqual_Circle_refl)
next
  case (Arc og r s e l)
  obtain i j where
    "mirror spec_helpers (mirror spec_helpers (Some (Arc og r s e l)) mirrorX mirrorY)
       mirrorX mirrorY = Some (Arc og r (s + 360 * of_int i) (e + 360 * of_int j) l)"
    using mirror_Arc_twice by blast
  with Arc show ?thesis by (simp add: areEqual_Arc_turns)
next
  case (Bezier og e cs l)
  then have tp: "path_type p = Type_Bezier" by simp
  then obtain q1 where q1: "mirror spec_helpers (Some p) mirrorX mirrorY = Some q1"
      and t1: "path_type q1 = Type_Bezier"
    using mirror_Bezier_type by blast
  from t1 obtain q2 where q2: "mirror spec_helpers (Some q1) mirrorX mirrorY = Some q2"
      and t2: "path_type q2 = Type_Bezier"
    using mirror_Bezier_type by blast
  from tp t2 have "areEqual spec_helpers p q2 None = None"
    by (rule areEqual_Bezier_null)
  with q1 q2 tp show ?thesis by simp
qed

text \<open>
  C6: for every arc and every nonzero rotation, \<open>rotate\<close> replaces the start angle and
  the end angle by the normalization of each angle plus the rotation, each on its own,
  and rotates the origin; the normalized angles lie in \<open>[0, 360)\<close>. Rotating the arc
  from 0 to 90 about \<open>(0, 0)\<close> by 90 degrees gives the arc from 90 to 180.
\<close>

theorem C6_rotate_arc_normalizes_each_angle:
  assumes "angleInDegrees \<noteq> 0"
  shows "rotate h (Some (Arc og r s e l)) angleInDegrees c =
           Some (Arc (point_rotate h og angleInDegrees c) r
                   (angle_noRevolutions h (s + angleInDegrees))
                   (angle_noRevolutions h (e + angleInDegrees)) l)
         \<and> angle_noRevolutions spec_helpers (s + angleInDegrees) =
             noRevolutions_spec (s + angleInDegrees)
         \<and> 0 \<le> noRevolutions_spec (s + angleInDegrees)
         \<and> noRevolutions_spec (s + angleInDegrees) < 360
         \<and> 0 \<le> noRevolutions_spec (e + angleInDegrees)
         \<and> noRevolutions_spec (e + angleInDegrees) < 360
         \<and> rotate spec_helpers (Some (Arc (0, 0) 5 0 90 None)) 90 (0, 0) =
             Some (Arc (0, 0) 5 90 180 None)"
proof -
  have "rotate spec_helpers (Some (Arc (0, 0) 5 0 90 None)) 90 (0, 0) =
          Some (Arc (0, 0) 5 90 180 None)"
    by (simp add: rotate_def spec_helpers_def noRevolutions_spec_def point_rotate_spec_def)
  moreover have "angle_noRevolutions spec_helpers (s + angleInDegrees) =
             noRevolutions_spec (s + angleInDegrees)"
    by (simp add: spec_helpers_def)
  ultimately show ?thesis
    using assms noRevolutions_spec_range[of "s + angleInDegrees"]
      noRevolutions_spec_range[of "e + angleInDegrees"]
    by (simp add: rotate_def)
qed

text \<open>
  Witness of C6: the arc from 300 to 350 rotated by 30 degrees; the end angle wraps to
  20, the start angle does not.
\<close>

theorem C6_rotate_arc_normalizes_each_angle_witness:
  "(30 :: real) \<noteq> 0
   \<and> rotate spec_helpers (Some (Arc (0, 0) 5 300 350 None)) 30 (0, 0) =
       Some (Arc (0, 0) 5 330 20 None)"
  using C6_rotate_arc_normalizes_each_angle [of 30 spec_helpers "(0, 0)" 5 300 350 None "(0, 0)"]
  by (simp add: spec_helpers_def noRevolutions_spec_def point_rotate_spec_def)




text \<open>
  C8: for every Bezier path and every curve parameter, \<open>breakAtPoint\<close> without a break
  point returns null and leaves the path as it is.
\<close>

theorem C8_bezier_break_needs_point:
  "breakAtPoint h (Some (Bezier og e cs l)) None ang t = (None, Some (Bezier og e cs l))"
  by (simp add: breakAtPoint_def)

text \<open>
  C9: for every arc on which \<open>breakAtPoint\<close> returns a second piece, the source keeps
  its origin, radius, start angle and layer; only its end angle changes, to the start
  angle of the returned arc.
\<close>

theorem C9_arc_break_frame:
  assumes "breakAtPoint h (Some (Arc og r st en l)) pointOfBreak ang t = (Some q, src)"
  shows "src = Some (Arc og r st (startAngle q) l)"
  using assms
  by (cases l)
     (auto simp add: breakAtPoint_def breakPathFunctionMap_Arc_def Let_def paths_Arc_def
        split: option.splits if_splits)

text \<open>Witness of C9: the arc from 350 to 10 broken at angle 5.\<close>

theorem C9_arc_break_frame_witness:
  "breakAtPoint spec_helpers (Some (Arc (0, 0) 5 350 10 None)) (Some (5, 0)) (Some 5) None
     = (Some (Arc (0, 0) 5 365 10 None), Some (Arc (0, 0) 5 350 365 None))
   \<and> Some (Arc (0, 0) 5 350 365 None)
     = Some (Arc (0, 0) 5 350 (startAngle (Arc (0, 0) 5 365 10 None)) None)"
proof -
  have b: "breakAtPoint spec_helpers (Some (Arc (0, 0) 5 350 10 None)) (Some (5, 0)) (Some 5)
      None = (Some (Arc (0, 0) 5 365 10 None), Some (Arc (0, 0) 5 350 365 None))"
    by (simp add: breakAtPoint_def breakPathFunctionMap_Arc_def number_or_def
        getAngleStrictlyBetweenArcAngles_def spec_helpers_def angle_areEqual_spec_def
        noRevolutions_spec_def ofArcEnd_spec_def isBetween_spec_def angleTolerance_def
        paths_Arc_def)
  show ?thesis
  proof (intro conjI)
    show "breakAtPoint spec_helpers (Some (Arc (0, 0) 5 350 10 None)) (Some (5, 0)) (Some 5)
        None = (Some (Arc (0, 0) 5 365 10 None), Some (Arc (0, 0) 5 350 365 None))"
      by (rule b)
    show "Some (Arc (0, 0) 5 350 365 None)
        = Some (Arc (0, 0) 5 350 (startAngle (Arc (0, 0) 5 365 10 None)) None)"
      by (rule C9_arc_break_frame [OF b])
  qed
qed

text \<open>
  C10: for every pair of Bezier paths, \<open>areEqual\<close> returns the null of the Bezier
  handler, never true.
\<close>

theorem C10_areEqual_Bezier_never_true:
  "areEqual h (Bezier og e cs l) (Bezier og' e' cs' l') withinPointDistance = None
   \<and> areEqual h (Bezier og e cs l) (Bezier og' e' cs' l') withinPointDistance \<noteq> Some True"
  by (simp add: areEqual_def pathAreEqualMap_Bezier_def)

end
